theory Spec2Isabelle
  imports Main "HOL-Library.Word"
begin

unbundle bit_operations_syntax

section \<open>The response transport\<close>

text \<open>
  The handlers write to an \<^verbatim>\<open>http.ResponseWriter\<close>. The tests of the package observe it
  through \<^verbatim>\<open>httptest.ResponseRecorder\<close>: the status code, the header map and the body.
  The record below is that recorder. \<open>wroteHeader\<close> tells whether a status line has been
  committed; until then \<open>Code\<close> holds the recorder's initial 200.
\<close>

record ResponseWriter =
  Code :: nat
  HeaderMap :: "string \<rightharpoonup> string"
  Body :: string
  wroteHeader :: bool

definition NewRecorder :: ResponseWriter where
  "NewRecorder = \<lparr>Code = 200, HeaderMap = Map.empty, Body = [], wroteHeader = False\<rparr>"

definition StatusOK :: nat where "StatusOK = 200"
definition StatusMovedPermanently :: nat where "StatusMovedPermanently = 301"
definition StatusFound :: nat where "StatusFound = 302"
definition StatusNotFound :: nat where "StatusNotFound = 404"
definition StatusInternalServerError :: nat where "StatusInternalServerError = 500"

text \<open>\<^verbatim>\<open>w.WriteHeader(code)\<close>: the first status line wins, a later call changes nothing.\<close>

definition WriteHeader :: "nat \<Rightarrow> ResponseWriter \<Rightarrow> ResponseWriter" where
  "WriteHeader code w = (if wroteHeader w then w else w\<lparr>Code := code, wroteHeader := True\<rparr>)"

text \<open>\<^verbatim>\<open>w.Write(bytes)\<close>: commits status 200 when no status line was written, then appends.\<close>

definition Write :: "string \<Rightarrow> ResponseWriter \<Rightarrow> ResponseWriter" where
  "Write bytes w = (let w' = WriteHeader StatusOK w in w'\<lparr>Body := Body w' @ bytes\<rparr>)"

text \<open>\<^verbatim>\<open>w.Header().Set(key, value)\<close>.\<close>

definition Header_Set :: "string \<Rightarrow> string \<Rightarrow> ResponseWriter \<Rightarrow> ResponseWriter" where
  "Header_Set key val w = w\<lparr>HeaderMap := (HeaderMap w)(key \<mapsto> val)\<rparr>"

text \<open>
  \<^verbatim>\<open>http.Error(w, error, code)\<close>, the basic error-writing primitive of net/http: a plain-text
  content type, the status line, and the error text followed by a newline.
\<close>

definition http_Error :: "ResponseWriter \<Rightarrow> string \<Rightarrow> nat \<Rightarrow> ResponseWriter" where
  "http_Error w err code =
     Write (err @ [CHR 0x0A])
       (WriteHeader code
         (Header_Set ''X-Content-Type-Options'' ''nosniff''
           (Header_Set ''Content-Type'' ''text/plain; charset=utf-8'' w)))"

section \<open>Templates and buffers\<close>

text \<open>
  A \<^verbatim>\<open>*template.Template\<close> is a precompiled rendering program. Executing it against a data
  value writes bytes to a writer and may stop with an error after part of the output has
  been written. A template is therefore a function from the data value to the bytes it
  emits and the error it ends with, if any.
\<close>

type_synonym 'd Template = "'d \<Rightarrow> string \<times> string option"

text \<open>A \<^verbatim>\<open>bytes.Buffer\<close> is the bytes written to it so far; \<^verbatim>\<open>var buffer bytes.Buffer\<close> is empty.\<close>

type_synonym Buffer = string

definition empty_Buffer :: Buffer where
  "empty_Buffer = []"

text \<open>\<^verbatim>\<open>err := t.Execute(&buffer, data)\<close>: the output goes to the buffer, the error is returned.\<close>

definition Execute :: "'d Template \<Rightarrow> Buffer \<Rightarrow> 'd \<Rightarrow> Buffer \<times> string option" where
  "Execute t buffer data = (case t data of (out, err) \<Rightarrow> (buffer @ out, err))"

text \<open>\<^verbatim>\<open>buffer.WriteTo(w)\<close>: one \<^verbatim>\<open>w.Write\<close> of the whole content, none when the buffer is empty.\<close>

definition WriteTo :: "Buffer \<Rightarrow> ResponseWriter \<Rightarrow> ResponseWriter" where
  "WriteTo buffer w = (if buffer = [] then w else Write buffer w)"

section \<open>Requests\<close>

record URL =
  Path :: string

text \<open>
  Of a \<^verbatim>\<open>*http.Request\<close> the handlers read \<^verbatim>\<open>r.URL.Path\<close> only. Requests are plain ones:
  no query string, no conditional or range headers.
\<close>

record Request =
  URL :: URL

section \<open>ErrorHandler\<close>

record ErrorMessage =
  ErrorMessage :: string

record ErrorHandler =
  template :: "ErrorMessage Template"
  defaultMessage :: string
  displayErrors :: bool

definition NewErrorHandler :: "ErrorMessage Template \<Rightarrow> string \<Rightarrow> bool \<Rightarrow> ErrorHandler" where
  "NewErrorHandler t message display =
     \<lparr>template = t, defaultMessage = message, displayErrors = display\<rparr>"

definition ServeError :: "ErrorHandler \<Rightarrow> ResponseWriter \<Rightarrow> string \<Rightarrow> ResponseWriter" where
  "ServeError h w message =
     (let templateData =
            (if displayErrors h then \<lparr>ErrorMessage = message\<rparr>
             else \<lparr>ErrorMessage = defaultMessage h\<rparr>)
      in case Execute (ErrorHandler.template h) empty_Buffer templateData of
           (buffer, Some err) \<Rightarrow> http_Error w err StatusInternalServerError
         | (buffer, None) \<Rightarrow> WriteTo buffer (WriteHeader StatusInternalServerError w))"

definition AlwaysServeError :: "ErrorHandler \<Rightarrow> ResponseWriter \<Rightarrow> string \<Rightarrow> ResponseWriter" where
  "AlwaysServeError h w message =
     (let templateData = \<lparr>ErrorMessage = message\<rparr>
      in case Execute (ErrorHandler.template h) empty_Buffer templateData of
           (buffer, Some err) \<Rightarrow> http_Error w err StatusInternalServerError
         | (buffer, None) \<Rightarrow> WriteTo buffer (WriteHeader StatusInternalServerError w))"

definition ErrorHandler_ServeHTTP :: "ErrorHandler \<Rightarrow> ResponseWriter \<Rightarrow> Request \<Rightarrow> ResponseWriter" where
  "ErrorHandler_ServeHTTP h w r =
     (let templateData = \<lparr>ErrorMessage = defaultMessage h\<rparr>
      in case Execute (ErrorHandler.template h) empty_Buffer templateData of
           (buffer, Some err) \<Rightarrow> http_Error w err StatusInternalServerError
         | (buffer, None) \<Rightarrow> WriteTo buffer (WriteHeader StatusInternalServerError w))"

section \<open>NotFoundHandler\<close>

record NotFoundData =
  Path :: string

record NotFoundHandler =
  template :: "NotFoundData Template"

definition NewNotFoundHandler :: "NotFoundData Template \<Rightarrow> NotFoundHandler" where
  "NewNotFoundHandler t = \<lparr>template = t\<rparr>"

definition NotFoundHandler_ServeHTTP :: "NotFoundHandler \<Rightarrow> ResponseWriter \<Rightarrow> Request \<Rightarrow> ResponseWriter" where
  "NotFoundHandler_ServeHTTP h w r =
     (let templateData = \<lparr>NotFoundData.Path = URL.Path (URL r)\<rparr>
      in case Execute (NotFoundHandler.template h) empty_Buffer templateData of
           (buffer, Some err) \<Rightarrow> http_Error w err StatusInternalServerError
         | (buffer, None) \<Rightarrow> WriteTo buffer (WriteHeader StatusNotFound w))"

section \<open>The operating system\<close>

text \<open>
  \<^verbatim>\<open>os.FileMode\<close> is a 32-bit mask; the type bits are as in package os. A regular file has
  no type bit set.
\<close>

type_synonym FileMode = "32 word"

definition ModeDir :: FileMode where "ModeDir = push_bit 31 1"
definition ModeSymlink :: FileMode where "ModeSymlink = push_bit 27 1"
definition ModeDevice :: FileMode where "ModeDevice = push_bit 26 1"
definition ModeNamedPipe :: FileMode where "ModeNamedPipe = push_bit 25 1"
definition ModeSocket :: FileMode where "ModeSocket = push_bit 24 1"
definition ModeCharDevice :: FileMode where "ModeCharDevice = push_bit 21 1"
definition ModeIrregular :: FileMode where "ModeIrregular = push_bit 19 1"

definition ModeType :: FileMode where
  "ModeType = ModeDir OR ModeSymlink OR ModeNamedPipe OR ModeSocket OR ModeDevice
                OR ModeCharDevice OR ModeIrregular"

definition IsDir :: "FileMode \<Rightarrow> bool" where
  "IsDir m = (m AND ModeDir \<noteq> 0)"

definition IsRegular :: "FileMode \<Rightarrow> bool" where
  "IsRegular m = (m AND ModeType = 0)"

record FileInfo =
  Mode :: FileMode

datatype os_error = ErrNotExist | ErrPermission | ErrInvalid | PathError string

text \<open>
  What the handlers use of the platform: the path separator (\<^verbatim>\<open>os.PathSeparator\<close>),
  \<^verbatim>\<open>os.Stat\<close>, which follows symbolic links, and the bytes of a file.
\<close>

record OS =
  PathSeparator :: char
  Stat :: "string \<Rightarrow> os_error + FileInfo"
  ReadFile :: "string \<Rightarrow> string"

text \<open>\<^verbatim>\<open>filepath.FromSlash\<close>: every slash becomes the separator; the identity where they agree.\<close>

definition FromSlash :: "OS \<Rightarrow> string \<Rightarrow> string" where
  "FromSlash os path =
     (if PathSeparator os = CHR ''/'' then path
      else map (\<lambda>c. if c = CHR ''/'' then PathSeparator os else c) path)"

section \<open>Strings and slices\<close>

datatype runtime_panic = slice_bounds_out_of_range

text \<open>\<^verbatim>\<open>s[low:]\<close> panics when \<open>low\<close> is negative or beyond the length of \<open>s\<close>.\<close>

definition slice_from :: "string \<Rightarrow> int \<Rightarrow> runtime_panic + string" where
  "slice_from s low =
     (if low < 0 \<or> int (length s) < low then Inl slice_bounds_out_of_range
      else Inr (drop (nat low) s))"

definition HasSuffix :: "string \<Rightarrow> string \<Rightarrow> bool" where
  "HasSuffix s suffix =
     (length suffix \<le> length s \<and> drop (length s - length suffix) s = suffix)"

section \<open>Primitives of net/http used by FileHandler\<close>

text \<open>
  \<^verbatim>\<open>http.Redirect(w, r, url, code)\<close> sets the Location header and writes the status line.
  The URL is recorded as the handler passes it; the normalisation net/http applies to
  it and the short HTML note it adds to the body are outside the model.
\<close>

definition http_Redirect :: "ResponseWriter \<Rightarrow> Request \<Rightarrow> string \<Rightarrow> nat \<Rightarrow> ResponseWriter" where
  "http_Redirect w r url code = WriteHeader code (Header_Set ''Location'' url w)"

text \<open>
  \<^verbatim>\<open>http.ServeFile(w, r, name)\<close>, as far as FileHandler reaches it (the named file is a
  regular file) and as \<^verbatim>\<open>TestFileHandler\<close> pins it down. A request path with a \<^verbatim>\<open>..\<close>
  element is rejected with 400. A request path ending in \<^verbatim>\<open>/index.html\<close> is redirected to
  \<^verbatim>\<open>./\<close> with 301, whatever the file holds. Any other request is answered 200 with the
  bytes of the file. Content type and caching headers are outside the model.
\<close>

fun fields :: "(char \<Rightarrow> bool) \<Rightarrow> string \<Rightarrow> string \<Rightarrow> string list" where
  "fields f cur [] = (if cur = [] then [] else [cur])"
| "fields f cur (c # cs) =
     (if f c then (if cur = [] then fields f [] cs else cur # fields f [] cs)
      else fields f (cur @ [c]) cs)"

definition isSlashRune :: "char \<Rightarrow> bool" where
  "isSlashRune c = (c = CHR ''/'' \<or> c = CHR 0x5C)"

definition containsDotDot :: "string \<Rightarrow> bool" where
  "containsDotDot v = (''..'' \<in> set (fields isSlashRune [] v))"

definition localRedirect :: "ResponseWriter \<Rightarrow> Request \<Rightarrow> string \<Rightarrow> ResponseWriter" where
  "localRedirect w r newPath =
     WriteHeader StatusMovedPermanently (Header_Set ''Location'' newPath w)"

definition http_ServeFile :: "OS \<Rightarrow> ResponseWriter \<Rightarrow> Request \<Rightarrow> string \<Rightarrow> ResponseWriter" where
  "http_ServeFile os w r name =
     (if containsDotDot (URL.Path (URL r)) then http_Error w ''invalid URL path'' 400
      else if HasSuffix (URL.Path (URL r)) ''/index.html'' then localRedirect w r ''./''
      else Write (ReadFile os name) (WriteHeader StatusOK w))"

section \<open>FileHandler\<close>

text \<open>
  An \<^verbatim>\<open>http.Handler\<close> is anything with a \<^verbatim>\<open>ServeHTTP(w, r)\<close> method. A handler either
  returns, leaving the transport in a new state, or panics.
\<close>

type_synonym Handler = "ResponseWriter \<Rightarrow> Request \<Rightarrow> runtime_panic + ResponseWriter"

definition NotFoundHandler_Handler :: "NotFoundHandler \<Rightarrow> Handler" where
  "NotFoundHandler_Handler h = (\<lambda>w r. Inr (NotFoundHandler_ServeHTTP h w r))"

record FileHandler =
  urlPath :: string
  directory :: string
  notFoundHandler :: Handler

definition NewFileHandler :: "string \<Rightarrow> string \<Rightarrow> Handler \<Rightarrow> FileHandler" where
  "NewFileHandler p d nfh = \<lparr>urlPath = p, directory = d, notFoundHandler = nfh\<rparr>"

definition indexPage :: string where
  "indexPage = ''index.html''"

text \<open>The first half of \<^verbatim>\<open>FileHandler.ServeHTTP\<close>: the target file path of a request.\<close>

definition FileHandler_filePath :: "OS \<Rightarrow> FileHandler \<Rightarrow> Request \<Rightarrow> runtime_panic + string" where
  "FileHandler_filePath os h r =
     (case slice_from (URL.Path (URL r)) (int (length (urlPath h)) - 1) of
        Inl p \<Rightarrow> Inl p
      | Inr requestPath \<Rightarrow>
          (if HasSuffix (URL.Path (URL r)) ''/''
           then Inr (directory h @ FromSlash os (requestPath @ indexPage))
           else Inr (directory h @ FromSlash os requestPath)))"

text \<open>
  The second half: stat the target and answer. The \<^verbatim>\<open>switch\<close> has two cases and no
  default; when neither holds the method returns with the transport as it was.
\<close>

definition FileHandler_serve :: "OS \<Rightarrow> FileHandler \<Rightarrow> ResponseWriter \<Rightarrow> Request \<Rightarrow> string
    \<Rightarrow> runtime_panic + ResponseWriter" where
  "FileHandler_serve os h w r filePath =
     (case Stat os filePath of
        Inl err \<Rightarrow> notFoundHandler h w r
      | Inr finfo \<Rightarrow>
          (let mode = Mode finfo
           in if IsDir mode then Inr (http_Redirect w r (URL.Path (URL r) @ ''/'') StatusFound)
              else if IsRegular mode then Inr (http_ServeFile os w r filePath)
              else Inr w))"

definition FileHandler_ServeHTTP :: "OS \<Rightarrow> FileHandler \<Rightarrow> ResponseWriter \<Rightarrow> Request
    \<Rightarrow> runtime_panic + ResponseWriter" where
  "FileHandler_ServeHTTP os h w r =
     (case FileHandler_filePath os h r of
        Inl p \<Rightarrow> Inl p
      | Inr filePath \<Rightarrow> FileHandler_serve os h w r filePath)"

section \<open>The earlier revision of ServeError\<close>

text \<open>
  \<^verbatim>\<open>handlers.go\<close> also holds the earlier revision of the package. There \<^verbatim>\<open>ServeError\<close>
  writes the status line first and executes the template straight into the transport,
  dropping the error that \<^verbatim>\<open>Execute\<close> returns. The buffered revision above replaced it.
\<close>

definition Execute_to :: "'d Template \<Rightarrow> ResponseWriter \<Rightarrow> 'd \<Rightarrow> ResponseWriter \<times> string option" where
  "Execute_to t w data = (case t data of (out, err) \<Rightarrow> (if out = [] then w else Write out w, err))"

definition ServeError_unbuffered :: "ErrorHandler \<Rightarrow> ResponseWriter \<Rightarrow> string \<Rightarrow> ResponseWriter" where
  "ServeError_unbuffered h w message =
     (let templateData =
            (if displayErrors h then \<lparr>ErrorMessage = message\<rparr>
             else \<lparr>ErrorMessage = defaultMessage h\<rparr>)
      in fst (Execute_to (ErrorHandler.template h) (WriteHeader StatusInternalServerError w)
                templateData))"

section \<open>The fixtures of the package tests\<close>

text \<open>
  The templates of the tests print \<^verbatim>\<open>Error: \<close> and \<^verbatim>\<open>Not Found: \<close> before the value they are
  given. The broken ones stop with an error after the fixed text.
\<close>

definition error_html :: "ErrorMessage Template" where
  "error_html d = (''Error: '' @ ErrorMessage d, None)"

definition broken_error_html :: "ErrorMessage Template" where
  "broken_error_html d = (''Error: '', Some ''can't evaluate field Missing'')"

definition notfound_html :: "NotFoundData Template" where
  "notfound_html d = (''Not Found: '' @ NotFoundData.Path d, None)"

definition broken_notfound_html :: "NotFoundData Template" where
  "broken_notfound_html d = (''Not Found: '', Some ''can't evaluate field Missing'')"

text \<open>
  The directory served by \<^verbatim>\<open>TestFileHandler\<close>: \<^verbatim>\<open>index.html\<close>, \<^verbatim>\<open>sub1/index.html\<close> and
  \<^verbatim>\<open>sub2/not-index.html\<close>. Two entries are added to it: a named pipe and a file that
  cannot be stat'ed for lack of permission.
\<close>

definition dir_info :: FileInfo where
  "dir_info = \<lparr>Mode = ModeDir OR 0x1ED\<rparr>"

definition file_info :: FileInfo where
  "file_info = \<lparr>Mode = 0x1A4\<rparr>"

definition fifo_info :: FileInfo where
  "fifo_info = \<lparr>Mode = ModeNamedPipe OR 0x1A4\<rparr>"

definition test_Stat :: "string \<Rightarrow> os_error + FileInfo" where
  "test_Stat name =
     (if name \<in> {''./test'', ''./test/sub1'', ''./test/sub2''} then Inr dir_info
      else if name \<in> {''./test/index.html'', ''./test/sub1/index.html'',
                      ''./test/sub2/not-index.html''}
        then Inr file_info
      else if name = ''./test/fifo'' then Inr fifo_info
      else if name = ''./test/secret'' then Inl ErrPermission
      else Inl ErrNotExist)"

definition test_ReadFile :: "string \<Rightarrow> string" where
  "test_ReadFile name =
     (if name = ''./test/index.html'' then ''Test''
      else if name = ''./test/sub1/index.html'' then ''Sub1''
      else if name = ''./test/sub2/not-index.html'' then ''Sub2''
      else [])"

definition test_OS :: OS where
  "test_OS = \<lparr>PathSeparator = CHR ''/'', Stat = test_Stat, ReadFile = test_ReadFile\<rparr>"

definition test_FileHandler :: FileHandler where
  "test_FileHandler =
     NewFileHandler ''/test/'' ''./test''
       (NotFoundHandler_Handler (NewNotFoundHandler notfound_html))"

definition GET :: "string \<Rightarrow> Request" where
  "GET p = \<lparr>URL = \<lparr>URL.Path = p\<rparr>\<rparr>"

section \<open>Facts about the transport\<close>

lemma fresh_NewRecorder: "\<not> wroteHeader NewRecorder"
  by (simp add: NewRecorder_def)

lemma Body_NewRecorder: "Body NewRecorder = []"
  by (simp add: NewRecorder_def)

lemma HeaderMap_NewRecorder: "HeaderMap NewRecorder = Map.empty"
  by (simp add: NewRecorder_def)

lemma commit_fresh:
  "\<not> wroteHeader w \<Longrightarrow>
   WriteTo buffer (WriteHeader code w) = w\<lparr>Code := code, Body := Body w @ buffer, wroteHeader := True\<rparr>"
  by (simp add: WriteTo_def Write_def WriteHeader_def Let_def)

lemma http_Error_fresh:
  "\<not> wroteHeader w \<Longrightarrow>
   http_Error w err code =
     w\<lparr>Code := code,
       HeaderMap := (HeaderMap w)(''Content-Type'' \<mapsto> ''text/plain; charset=utf-8'',
                                   ''X-Content-Type-Options'' \<mapsto> ''nosniff''),
       Body := Body w @ err @ [CHR 0x0A], wroteHeader := True\<rparr>"
  by (simp add: http_Error_def Write_def WriteHeader_def Header_Set_def Let_def)

lemma http_Redirect_fresh:
  "\<not> wroteHeader w \<Longrightarrow>
   http_Redirect w r url code =
     w\<lparr>Code := code, HeaderMap := (HeaderMap w)(''Location'' \<mapsto> url), wroteHeader := True\<rparr>"
  by (simp add: http_Redirect_def WriteHeader_def Header_Set_def)

lemma localRedirect_fresh:
  "\<not> wroteHeader w \<Longrightarrow>
   localRedirect w r newPath =
     w\<lparr>Code := 301, HeaderMap := (HeaderMap w)(''Location'' \<mapsto> newPath), wroteHeader := True\<rparr>"
  by (simp add: localRedirect_def WriteHeader_def Header_Set_def StatusMovedPermanently_def)

lemma Execute_empty: "Execute t empty_Buffer d = t d"
  by (simp add: Execute_def empty_Buffer_def split: prod.splits)

lemma Code_http_Error: "\<not> wroteHeader w \<Longrightarrow> Code (http_Error w err code) = code"
  by (simp add: http_Error_fresh)

lemma Code_commit: "\<not> wroteHeader w \<Longrightarrow> Code (WriteTo buffer (WriteHeader code w)) = code"
  by (simp add: commit_fresh)

lemmas fixture_defs = error_html_def broken_error_html_def notfound_html_def
  broken_notfound_html_def NewErrorHandler_def NewNotFoundHandler_def GET_def

section \<open>The buffered rendering protocol\<close>

text \<open>
  C1. In the four buffered methods (\<^verbatim>\<open>ServeError\<close>, \<^verbatim>\<open>AlwaysServeError\<close> and the two
  \<^verbatim>\<open>ServeHTTP\<close> of the error and not-found handlers), when the template renders without
  error the transport the handler was given receives the status line of the method
  (500, or 404 for the not-found handler) and then the whole buffer, and nothing else:
  on a transport with no status line yet, the result is that transport with the status
  set and the rendered bytes appended to the body, the headers untouched. Rendering goes
  to the buffer, so the commit acts on the transport exactly as it was handed in.
\<close>

theorem buffered_render_then_commit:
  assumes "\<not> wroteHeader w"
  shows "(ErrorHandler.template eh
            \<lparr>ErrorMessage = (if displayErrors eh then m else defaultMessage eh)\<rparr> = (outa, None) \<longrightarrow>
          ServeError eh w m = WriteTo outa (WriteHeader 500 w) \<and>
          ServeError eh w m = w\<lparr>Code := 500, Body := Body w @ outa, wroteHeader := True\<rparr>)
       \<and> (ErrorHandler.template eh \<lparr>ErrorMessage = m\<rparr> = (outb, None) \<longrightarrow>
          AlwaysServeError eh w m = WriteTo outb (WriteHeader 500 w) \<and>
          AlwaysServeError eh w m = w\<lparr>Code := 500, Body := Body w @ outb, wroteHeader := True\<rparr>)
       \<and> (ErrorHandler.template eh \<lparr>ErrorMessage = defaultMessage eh\<rparr> = (outc, None) \<longrightarrow>
          ErrorHandler_ServeHTTP eh w r = WriteTo outc (WriteHeader 500 w) \<and>
          ErrorHandler_ServeHTTP eh w r = w\<lparr>Code := 500, Body := Body w @ outc, wroteHeader := True\<rparr>)
       \<and> (NotFoundHandler.template nh \<lparr>NotFoundData.Path = URL.Path (URL r)\<rparr> = (outd, None) \<longrightarrow>
          NotFoundHandler_ServeHTTP nh w r = WriteTo outd (WriteHeader 404 w) \<and>
          NotFoundHandler_ServeHTTP nh w r = w\<lparr>Code := 404, Body := Body w @ outd, wroteHeader := True\<rparr>)"
  using assms
  by (auto simp: ServeError_def AlwaysServeError_def ErrorHandler_ServeHTTP_def
      NotFoundHandler_ServeHTTP_def Execute_empty commit_fresh
      StatusInternalServerError_def StatusNotFound_def)

theorem buffered_render_then_commit_witness:
  "\<not> wroteHeader NewRecorder
   \<and> ServeError (NewErrorHandler error_html ''Default error message'' False) NewRecorder
        ''Test ServeError''
       = NewRecorder\<lparr>Code := 500, Body := ''Error: Default error message'', wroteHeader := True\<rparr>
   \<and> AlwaysServeError (NewErrorHandler error_html ''Default error message'' False) NewRecorder
        ''Test ServeError''
       = NewRecorder\<lparr>Code := 500, Body := ''Error: Test ServeError'', wroteHeader := True\<rparr>
   \<and> ErrorHandler_ServeHTTP (NewErrorHandler error_html ''Default error message'' False)
        NewRecorder (GET ''/path'')
       = NewRecorder\<lparr>Code := 500, Body := ''Error: Default error message'', wroteHeader := True\<rparr>
   \<and> NotFoundHandler_ServeHTTP (NewNotFoundHandler notfound_html) NewRecorder (GET ''/path'')
       = NewRecorder\<lparr>Code := 404, Body := ''Not Found: /path'', wroteHeader := True\<rparr>"
  using buffered_render_then_commit [OF fresh_NewRecorder,
      where eh = "NewErrorHandler error_html ''Default error message'' False"
        and m = "''Test ServeError''" and r = "GET ''/path''"
        and nh = "NewNotFoundHandler notfound_html"
        and outa = "''Error: Default error message''" and outb = "''Error: Test ServeError''"
        and outc = "''Error: Default error message''" and outd = "''Not Found: /path''"]
  by (simp add: fixture_defs fresh_NewRecorder Body_NewRecorder commit_fresh)

text \<open>
  The earlier revision does not have this property: with a template that fails after
  part of its output, the partial output reaches the client under status 500.
\<close>

lemma ServeError_unbuffered_partial_output:
  "ServeError_unbuffered (NewErrorHandler broken_error_html ''Default error message'' False)
     NewRecorder ''Test ServeError''
   = NewRecorder\<lparr>Code := 500, Body := ''Error: '', wroteHeader := True\<rparr>"
  by (simp add: ServeError_unbuffered_def Execute_to_def fixture_defs Write_def WriteHeader_def
      StatusInternalServerError_def NewRecorder_def)

text \<open>
  C6. When executing the template ends with an error, each of the four methods drops
  the buffer, whatever part of the output it holds, and answers through \<^verbatim>\<open>http.Error\<close>
  alone: status 500, a plain-text content type, and the text of the render error
  followed by a newline as the body. The methods have no error result and always
  return a transport, so the render error reaches the caller in no other way.
\<close>

theorem render_failure_fallback:
  assumes "\<not> wroteHeader w"
  shows "(ErrorHandler.template eh
            \<lparr>ErrorMessage = (if displayErrors eh then m else defaultMessage eh)\<rparr>
              = (partiala, Some erra) \<longrightarrow>
          ServeError eh w m = http_Error w erra 500)
       \<and> (ErrorHandler.template eh \<lparr>ErrorMessage = m\<rparr> = (partialb, Some errb) \<longrightarrow>
          AlwaysServeError eh w m = http_Error w errb 500)
       \<and> (ErrorHandler.template eh \<lparr>ErrorMessage = defaultMessage eh\<rparr> = (partialc, Some errc) \<longrightarrow>
          ErrorHandler_ServeHTTP eh w r = http_Error w errc 500)
       \<and> (NotFoundHandler.template nh \<lparr>NotFoundData.Path = URL.Path (URL r)\<rparr>
              = (partiald, Some errd) \<longrightarrow>
          NotFoundHandler_ServeHTTP nh w r = http_Error w errd 500)
       \<and> (\<forall>err. http_Error w err 500 =
             w\<lparr>Code := 500,
               HeaderMap := (HeaderMap w)(''Content-Type'' \<mapsto> ''text/plain; charset=utf-8'',
                                           ''X-Content-Type-Options'' \<mapsto> ''nosniff''),
               Body := Body w @ err @ [CHR 0x0A], wroteHeader := True\<rparr>)"
  using assms
  by (auto simp: ServeError_def AlwaysServeError_def ErrorHandler_ServeHTTP_def
      NotFoundHandler_ServeHTTP_def Execute_empty http_Error_fresh
      StatusInternalServerError_def)

theorem render_failure_fallback_witness:
  "\<not> wroteHeader NewRecorder
   \<and> broken_error_html \<lparr>ErrorMessage = ''Test ServeError''\<rparr>
       = (''Error: '', Some ''can't evaluate field Missing'')
   \<and> ServeError (NewErrorHandler broken_error_html ''Default error message'' True) NewRecorder
        ''Test ServeError''
       = http_Error NewRecorder ''can't evaluate field Missing'' 500
   \<and> AlwaysServeError (NewErrorHandler broken_error_html ''Default error message'' True)
        NewRecorder ''Test ServeError''
       = http_Error NewRecorder ''can't evaluate field Missing'' 500
   \<and> ErrorHandler_ServeHTTP (NewErrorHandler broken_error_html ''Default error message'' True)
        NewRecorder (GET ''/path'')
       = http_Error NewRecorder ''can't evaluate field Missing'' 500
   \<and> NotFoundHandler_ServeHTTP (NewNotFoundHandler broken_notfound_html) NewRecorder
        (GET ''/path'')
       = http_Error NewRecorder ''can't evaluate field Missing'' 500
   \<and> Code (http_Error NewRecorder ''can't evaluate field Missing'' 500) = 500
   \<and> Body (http_Error NewRecorder ''can't evaluate field Missing'' 500)
       = ''can't evaluate field Missing'' @ [CHR 0x0A]"
  using render_failure_fallback [OF fresh_NewRecorder,
      where eh = "NewErrorHandler broken_error_html ''Default error message'' True"
        and m = "''Test ServeError''" and r = "GET ''/path''"
        and nh = "NewNotFoundHandler broken_notfound_html"
        and partiala = "''Error: ''" and partialb = "''Error: ''" and partialc = "''Error: ''"
        and partiald = "''Not Found: ''"
        and erra = "''can't evaluate field Missing''" and errb = "''can't evaluate field Missing''"
        and errc = "''can't evaluate field Missing''" and errd = "''can't evaluate field Missing''"]
  by (simp add: fixture_defs fresh_NewRecorder Body_NewRecorder)

section \<open>Properties of NotFoundHandler\<close>

text \<open>
  C7. For every string \<open>p\<close>, the empty string and the root \<^verbatim>\<open>/\<close> included, the not-found
  handler answers a request with path \<open>p\<close> with status 404 and, as the body, the output
  of its template on the data \<^verbatim>\<open>{Path: p}\<close>, the request path as it came. The template is
  taken to render that data without error; a render error is the case of C6.
\<close>

theorem NotFoundHandler_serves_404:
  assumes "\<not> wroteHeader w"
    and "NotFoundHandler.template h \<lparr>NotFoundData.Path = p\<rparr> = (out, None)"
  shows "NotFoundHandler_ServeHTTP h w \<lparr>URL = \<lparr>URL.Path = p\<rparr>\<rparr> =
           w\<lparr>Code := 404, Body := Body w @ out, wroteHeader := True\<rparr>"
  using assms
  by (simp add: NotFoundHandler_ServeHTTP_def Execute_empty commit_fresh StatusNotFound_def)

theorem NotFoundHandler_serves_404_witness:
  "\<not> wroteHeader NewRecorder
   \<and> NotFoundHandler.template (NewNotFoundHandler notfound_html) \<lparr>NotFoundData.Path = []\<rparr>
       = (''Not Found: '', None)
   \<and> NotFoundHandler_ServeHTTP (NewNotFoundHandler notfound_html) NewRecorder
        \<lparr>URL = \<lparr>URL.Path = []\<rparr>\<rparr>
       = NewRecorder\<lparr>Code := 404, Body := ''Not Found: '', wroteHeader := True\<rparr>
   \<and> NotFoundHandler.template (NewNotFoundHandler notfound_html) \<lparr>NotFoundData.Path = ''/''\<rparr>
       = (''Not Found: /'', None)
   \<and> NotFoundHandler_ServeHTTP (NewNotFoundHandler notfound_html) NewRecorder
        \<lparr>URL = \<lparr>URL.Path = ''/''\<rparr>\<rparr>
       = NewRecorder\<lparr>Code := 404, Body := ''Not Found: /'', wroteHeader := True\<rparr>"
proof -
  have t0: "NotFoundHandler.template (NewNotFoundHandler notfound_html) \<lparr>NotFoundData.Path = []\<rparr>
              = (''Not Found: '', None)"
    by (simp add: fixture_defs)
  have t1: "NotFoundHandler.template (NewNotFoundHandler notfound_html) \<lparr>NotFoundData.Path = ''/''\<rparr>
              = (''Not Found: /'', None)"
    by (simp add: fixture_defs)
  show ?thesis
    using NotFoundHandler_serves_404 [OF fresh_NewRecorder t0]
      NotFoundHandler_serves_404 [OF fresh_NewRecorder t1] t0 t1
    by (simp add: fresh_NewRecorder Body_NewRecorder)
qed

section \<open>Properties of ErrorHandler\<close>

lemma Code_AlwaysServeError: "\<not> wroteHeader w \<Longrightarrow> Code (AlwaysServeError h w m) = 500"
  by (simp add: AlwaysServeError_def Code_http_Error Code_commit StatusInternalServerError_def
      split: prod.splits option.splits)

lemma ServeError_eq:
  "ServeError h w m = AlwaysServeError h w (if displayErrors h then m else defaultMessage h)"
  by (simp add: ServeError_def AlwaysServeError_def)

lemma Body_AlwaysServeError:
  "\<not> wroteHeader w \<Longrightarrow> ErrorHandler.template h \<lparr>ErrorMessage = m\<rparr> = (out, None) \<Longrightarrow>
   Body (AlwaysServeError h w m) = Body w @ out"
  by (simp add: AlwaysServeError_def Execute_empty commit_fresh)

lemma AlwaysServeError_flag:
  "AlwaysServeError (h\<lparr>displayErrors := b\<rparr>) w m = AlwaysServeError h w m"
  by (simp add: AlwaysServeError_def)

text \<open>
  C8. \<^verbatim>\<open>ServeError\<close> with message \<open>m\<close> answers as \<^verbatim>\<open>AlwaysServeError\<close> does with the message
  the policy selects: \<open>m\<close> when \<open>displayErrors\<close> is true, the configured default message
  otherwise. \<^verbatim>\<open>AlwaysServeError\<close> with \<open>m\<close> does not depend on the flag. Both answer with
  status 500, whether the template renders or not. Where the template renders, the body
  of \<^verbatim>\<open>AlwaysServeError\<close> is the template's output on \<open>m\<close>; that of \<^verbatim>\<open>ServeError\<close> is the
  output on \<open>m\<close> when the flag is true and the output on the default message when it is
  false.
\<close>

theorem ErrorHandler_message_policy:
  "ServeError h w m = AlwaysServeError h w (if displayErrors h then m else defaultMessage h)
   \<and> AlwaysServeError (h\<lparr>displayErrors := b\<rparr>) w m = AlwaysServeError h w m
   \<and> (\<not> wroteHeader w \<longrightarrow>
        Code (ServeError h w m) = 500 \<and> Code (AlwaysServeError h w m) = 500)
   \<and> (\<not> wroteHeader w \<and> ErrorHandler.template h \<lparr>ErrorMessage = m\<rparr> = (out, None) \<longrightarrow>
        Body (AlwaysServeError h w m) = Body w @ out
        \<and> (displayErrors h \<longrightarrow> Body (ServeError h w m) = Body w @ out))
   \<and> (\<not> wroteHeader w \<and> \<not> displayErrors h
        \<and> ErrorHandler.template h \<lparr>ErrorMessage = defaultMessage h\<rparr> = (dout, None) \<longrightarrow>
        Body (ServeError h w m) = Body w @ dout)"
  by (simp add: ServeError_eq AlwaysServeError_flag Code_AlwaysServeError Body_AlwaysServeError)

theorem ErrorHandler_message_policy_witness:
  "\<not> wroteHeader NewRecorder
   \<and> displayErrors (NewErrorHandler error_html ''Default error message'' True)
   \<and> \<not> displayErrors (NewErrorHandler error_html ''Default error message'' False)
   \<and> Body (ServeError (NewErrorHandler error_html ''Default error message'' True)
             NewRecorder ''Test ServeError'') = ''Error: Test ServeError''
   \<and> Body (AlwaysServeError (NewErrorHandler error_html ''Default error message'' True)
             NewRecorder ''Test ServeError'') = ''Error: Test ServeError''
   \<and> Body (ServeError (NewErrorHandler error_html ''Default error message'' False)
             NewRecorder ''Test ServeError'') = ''Error: Default error message''
   \<and> Body (AlwaysServeError (NewErrorHandler error_html ''Default error message'' False)
             NewRecorder ''Test ServeError'') = ''Error: Test ServeError''
   \<and> Code (ServeError (NewErrorHandler error_html ''Default error message'' True)
             NewRecorder ''Test ServeError'') = 500
   \<and> Code (ServeError (NewErrorHandler error_html ''Default error message'' False)
             NewRecorder ''Test ServeError'') = 500
   \<and> Code (AlwaysServeError (NewErrorHandler error_html ''Default error message'' False)
             NewRecorder ''Test ServeError'') = 500"
proof -
  have on: "displayErrors (NewErrorHandler error_html ''Default error message'' True)"
    and off: "\<not> displayErrors (NewErrorHandler error_html ''Default error message'' False)"
    by (simp_all add: NewErrorHandler_def)
  have tm: "ErrorHandler.template (NewErrorHandler error_html ''Default error message'' b)
              \<lparr>ErrorMessage = ''Test ServeError''\<rparr> = (''Error: Test ServeError'', None)" for b
    by (simp add: fixture_defs)
  have td: "ErrorHandler.template (NewErrorHandler error_html ''Default error message'' False)
              \<lparr>ErrorMessage =
                 defaultMessage (NewErrorHandler error_html ''Default error message'' False)\<rparr>
              = (''Error: Default error message'', None)"
    by (simp add: fixture_defs)
  note shown = ErrorHandler_message_policy
      [where h = "NewErrorHandler error_html ''Default error message'' True"
         and w = NewRecorder and m = "''Test ServeError''" and b = True
         and out = "''Error: Test ServeError''" and dout = "[]"]
  note hidden = ErrorHandler_message_policy
      [where h = "NewErrorHandler error_html ''Default error message'' False"
         and w = NewRecorder and m = "''Test ServeError''" and b = False
         and out = "''Error: Test ServeError''" and dout = "''Error: Default error message''"]
  from shown on tm [of True]
  have s: "Body (ServeError (NewErrorHandler error_html ''Default error message'' True)
                  NewRecorder ''Test ServeError'') = ''Error: Test ServeError''
           \<and> Body (AlwaysServeError (NewErrorHandler error_html ''Default error message'' True)
                  NewRecorder ''Test ServeError'') = ''Error: Test ServeError''
           \<and> Code (ServeError (NewErrorHandler error_html ''Default error message'' True)
                  NewRecorder ''Test ServeError'') = 500"
    by (simp add: fresh_NewRecorder Body_NewRecorder)
  from hidden [THEN conjunct2, THEN conjunct2] off tm [of False] td
  have h: "Body (ServeError (NewErrorHandler error_html ''Default error message'' False)
                  NewRecorder ''Test ServeError'') = ''Error: Default error message''
           \<and> Body (AlwaysServeError (NewErrorHandler error_html ''Default error message'' False)
                  NewRecorder ''Test ServeError'') = ''Error: Test ServeError''
           \<and> Code (ServeError (NewErrorHandler error_html ''Default error message'' False)
                  NewRecorder ''Test ServeError'') = 500
           \<and> Code (AlwaysServeError (NewErrorHandler error_html ''Default error message'' False)
                  NewRecorder ''Test ServeError'') = 500"
    by (simp add: fresh_NewRecorder Body_NewRecorder)
  from s h on off show ?thesis by (simp add: fresh_NewRecorder)
qed

text \<open>
  C9, as stated, fails. With \<open>displayErrors\<close> true, \<^verbatim>\<open>ServeError\<close> called with no caller
  message, the empty string, renders the empty message, while \<^verbatim>\<open>ServeHTTP\<close> renders the
  default message.
\<close>

theorem ServeHTTP_differs_from_ServeError_empty:
  "Body (ErrorHandler_ServeHTTP (NewErrorHandler error_html ''Default error message'' True)
           NewRecorder (GET ''/'')) = ''Error: Default error message''
   \<and> Body (ServeError (NewErrorHandler error_html ''Default error message'' True)
           NewRecorder []) = ''Error: ''
   \<and> ErrorHandler_ServeHTTP (NewErrorHandler error_html ''Default error message'' True)
           NewRecorder (GET ''/'')
       \<noteq> ServeError (NewErrorHandler error_html ''Default error message'' True) NewRecorder []"
proof -
  have b1: "Body (ErrorHandler_ServeHTTP (NewErrorHandler error_html ''Default error message'' True)
           NewRecorder (GET ''/'')) = ''Error: Default error message''"
    by (simp add: ErrorHandler_ServeHTTP_def fixture_defs Execute_empty commit_fresh
        fresh_NewRecorder Body_NewRecorder)
  have b2: "Body (ServeError (NewErrorHandler error_html ''Default error message'' True)
           NewRecorder []) = ''Error: ''"
    by (simp add: ServeError_def fixture_defs Execute_empty commit_fresh
        fresh_NewRecorder Body_NewRecorder)
  from b1 b2 show ?thesis by auto
qed

text \<open>
  C9, amended. The \<^verbatim>\<open>ServeHTTP\<close> of the error handler always renders the configured
  default message, for every configuration, \<open>displayErrors\<close> true included: it answers
  as \<^verbatim>\<open>AlwaysServeError\<close> and as \<^verbatim>\<open>ServeError\<close> do when they are called with the default
  message. It answers as \<^verbatim>\<open>ServeError\<close> called with any other message, the empty one
  included, when \<open>displayErrors\<close> is false.
\<close>

theorem ServeHTTP_renders_defaultMessage:
  "ErrorHandler_ServeHTTP h w r = AlwaysServeError h w (defaultMessage h)
   \<and> ErrorHandler_ServeHTTP h w r = ServeError h w (defaultMessage h)
   \<and> (\<not> displayErrors h \<longrightarrow> ErrorHandler_ServeHTTP h w r = ServeError h w m)"
  by (simp add: ErrorHandler_ServeHTTP_def ServeError_def AlwaysServeError_def)

theorem ServeHTTP_renders_defaultMessage_witness:
  "\<not> displayErrors (NewErrorHandler error_html ''Default error message'' False)
   \<and> ErrorHandler_ServeHTTP (NewErrorHandler error_html ''Default error message'' False)
        NewRecorder (GET ''/'')
       = ServeError (NewErrorHandler error_html ''Default error message'' False) NewRecorder []
   \<and> ErrorHandler_ServeHTTP (NewErrorHandler error_html ''Default error message'' False)
        NewRecorder (GET ''/'')
       = AlwaysServeError (NewErrorHandler error_html ''Default error message'' False)
           NewRecorder ''Default error message''"
proof -
  have off: "\<not> displayErrors (NewErrorHandler error_html ''Default error message'' False)"
    by (simp add: NewErrorHandler_def)
  have dm: "defaultMessage (NewErrorHandler error_html ''Default error message'' False)
              = ''Default error message''"
    by (simp add: NewErrorHandler_def)
  from ServeHTTP_renders_defaultMessage
      [where h = "NewErrorHandler error_html ''Default error message'' False"
         and w = NewRecorder and r = "GET ''/''" and m = "[]"] off dm
  show ?thesis by metis
qed

section \<open>FileHandler: the target of a request\<close>

lemma IsDir_not_IsRegular: "IsDir m \<Longrightarrow> \<not> IsRegular m"
  unfolding IsDir_def IsRegular_def ModeType_def
  by (auto simp: bit_eq_iff bit_simps)

lemmas Mode_defs = ModeDir_def ModeSymlink_def ModeDevice_def ModeNamedPipe_def ModeSocket_def
  ModeCharDevice_def ModeIrregular_def ModeType_def

lemmas test_defs = test_OS_def test_Stat_def test_ReadFile_def test_FileHandler_def
  NewFileHandler_def NotFoundHandler_Handler_def

lemma slice_from_ok:
  "u \<noteq> [] \<Longrightarrow> length u - 1 \<le> length p \<Longrightarrow>
   slice_from p (int (length u) - 1) = Inr (drop (length u - 1) p)"
  by (cases u) (auto simp: slice_from_def nat_diff_distrib')

lemma FileHandler_filePath_ok:
  assumes "urlPath h \<noteq> []" and "length (urlPath h) - 1 \<le> length (URL.Path (URL r))"
  shows "FileHandler_filePath os h r =
           Inr (directory h @ FromSlash os (drop (length (urlPath h) - 1) (URL.Path (URL r))
                  @ (if HasSuffix (URL.Path (URL r)) ''/'' then ''index.html'' else [])))"
  using assms by (simp add: FileHandler_filePath_def slice_from_ok indexPage_def)

text \<open>
  The slice \<^verbatim>\<open>r.URL.Path[len(h.urlPath)-1:]\<close> panics for an empty \<open>urlPath\<close> and for a
  request path more than one character shorter than \<open>urlPath\<close>; the handler then writes
  nothing.
\<close>

lemma FileHandler_ServeHTTP_panics:
  assumes "urlPath h = [] \<or> length (URL.Path (URL r)) + 1 < length (urlPath h)"
  shows "FileHandler_ServeHTTP os h w r = Inl slice_bounds_out_of_range"
  using assms
  by (auto simp: FileHandler_ServeHTTP_def FileHandler_filePath_def slice_from_def)

lemma drop_pred_prefix:
  assumes "u \<noteq> []" and "take (length u) p = u"
  shows "drop (length u - 1) p = last u # drop (length u) p"
proof -
  have "p = u @ drop (length u) p" using assms(2) by (metis append_take_drop_id)
  moreover have "u = butlast u @ [last u]" using assms(1) by simp
  ultimately have "p = butlast u @ last u # drop (length u) p"
    by (metis append.assoc append_Cons append_Nil)
  then have "drop (length (butlast u)) p = last u # drop (length u) p"
    by (metis append_eq_conv_conj)
  then show ?thesis by simp
qed

lemma filePath_mount_root:
  assumes "urlPath h = p @ ''/''" and "\<not> HasSuffix p ''/''"
  shows "FileHandler_filePath os h \<lparr>URL = \<lparr>URL.Path = p\<rparr>\<rparr> = Inr (directory h)"
  using assms by (simp add: FileHandler_filePath_def slice_from_def FromSlash_def)

lemma test_filePath:
  "FileHandler_filePath test_OS test_FileHandler (GET ''/test'') = Inr ''./test''"
  "FileHandler_filePath test_OS test_FileHandler (GET ''/test/'') = Inr ''./test/index.html''"
  "FileHandler_filePath test_OS test_FileHandler (GET ''/test/index.html'')
     = Inr ''./test/index.html''"
  "FileHandler_filePath test_OS test_FileHandler (GET ''/test/sub1'') = Inr ''./test/sub1''"
  "FileHandler_filePath test_OS test_FileHandler (GET ''/test/nofile'') = Inr ''./test/nofile''"
  "FileHandler_filePath test_OS test_FileHandler (GET ''/test/secret'') = Inr ''./test/secret''"
  "FileHandler_filePath test_OS test_FileHandler (GET ''/test/fifo'') = Inr ''./test/fifo''"
  by (simp_all add: FileHandler_filePath_def slice_from_def HasSuffix_def FromSlash_def
      indexPage_def test_defs GET_def)

text \<open>
  C5. For a request path that starts with the handler's \<open>urlPath\<close>, the target is
  computed from \<open>relative\<close>, the request path without its first \<open>length urlPath - 1\<close>
  characters: \<open>directory\<close> followed by \<open>relative\<close> and \<^verbatim>\<open>index.html\<close> when the request path
  ends in a slash, \<open>directory\<close> followed by \<open>relative\<close> otherwise. The source passes the
  part after \<open>directory\<close> through \<^verbatim>\<open>filepath.FromSlash\<close>, which changes nothing where the
  path separator is the slash. The prefix is not empty. When it ends in a slash, as a
  mount point for a directory does, \<open>relative\<close> is that one slash followed by the rest
  of the request path after the prefix.
\<close>

theorem FileHandler_filePath_resolves:
  assumes "urlPath h \<noteq> []" and "take (length (urlPath h)) (URL.Path (URL r)) = urlPath h"
  shows "FileHandler_filePath os h r =
           Inr (directory h @ FromSlash os (drop (length (urlPath h) - 1) (URL.Path (URL r))
                  @ (if HasSuffix (URL.Path (URL r)) ''/'' then ''index.html'' else [])))
         \<and> (PathSeparator os = CHR ''/'' \<longrightarrow>
              FileHandler_filePath os h r =
                Inr (if HasSuffix (URL.Path (URL r)) ''/''
                     then directory h @ drop (length (urlPath h) - 1) (URL.Path (URL r))
                            @ ''index.html''
                     else directory h @ drop (length (urlPath h) - 1) (URL.Path (URL r))))
         \<and> (last (urlPath h) = CHR ''/'' \<longrightarrow>
              drop (length (urlPath h) - 1) (URL.Path (URL r))
                = CHR ''/'' # drop (length (urlPath h)) (URL.Path (URL r)))"
proof -
  from assms(2) have "length (urlPath h) \<le> length (URL.Path (URL r))"
    by (metis length_take min.cobounded2 min.commute)
  then have len: "length (urlPath h) - 1 \<le> length (URL.Path (URL r))" by simp
  note fp = FileHandler_filePath_ok [OF assms(1) len, of os]
  have sep: "PathSeparator os = CHR ''/'' \<Longrightarrow> FromSlash os x = x" for x
    by (simp add: FromSlash_def)
  show ?thesis
    using fp drop_pred_prefix [OF assms] by (auto simp: sep)
qed

theorem FileHandler_filePath_resolves_witness:
  "urlPath test_FileHandler \<noteq> []
   \<and> take (length (urlPath test_FileHandler)) ''/test/sub1/'' = urlPath test_FileHandler
   \<and> take (length (urlPath test_FileHandler)) ''/test/sub2/not-index.html''
       = urlPath test_FileHandler
   \<and> PathSeparator test_OS = CHR ''/'' \<and> last (urlPath test_FileHandler) = CHR ''/''
   \<and> FileHandler_filePath test_OS test_FileHandler (GET ''/test/sub1/'')
       = Inr ''./test/sub1/index.html''
   \<and> FileHandler_filePath test_OS test_FileHandler (GET ''/test/sub2/not-index.html'')
       = Inr ''./test/sub2/not-index.html''
   \<and> drop (length (urlPath test_FileHandler) - 1) ''/test/sub1/'' = ''/sub1/''"
proof -
  have u: "urlPath test_FileHandler = ''/test/''" by (simp add: test_defs)
  have ne: "urlPath test_FileHandler \<noteq> []" by (simp add: u)
  have p1: "take (length (urlPath test_FileHandler)) (URL.Path (URL (GET ''/test/sub1/'')))
              = urlPath test_FileHandler"
    by (simp add: u GET_def)
  have p2: "take (length (urlPath test_FileHandler))
              (URL.Path (URL (GET ''/test/sub2/not-index.html''))) = urlPath test_FileHandler"
    by (simp add: u GET_def)
  have d: "directory test_FileHandler = ''./test''" by (simp add: test_defs)
  have s: "PathSeparator test_OS = CHR ''/''" by (simp add: test_defs)
  from FileHandler_filePath_resolves [OF ne p1, of test_OS, THEN conjunct2] s
  have r1: "FileHandler_filePath test_OS test_FileHandler (GET ''/test/sub1/'')
              = Inr ''./test/sub1/index.html''
            \<and> drop (length (urlPath test_FileHandler) - 1) ''/test/sub1/'' = ''/sub1/''"
    by (simp add: u d GET_def HasSuffix_def)
  from FileHandler_filePath_resolves [OF ne p2, of test_OS, THEN conjunct2] s
  have r2: "FileHandler_filePath test_OS test_FileHandler (GET ''/test/sub2/not-index.html'')
              = Inr ''./test/sub2/not-index.html''"
    by (simp add: u d GET_def HasSuffix_def)
  from r1 r2 p1 p2 s show ?thesis by (simp add: u GET_def)
qed

section \<open>FileHandler: the answer\<close>

text \<open>
  C2. When the target of a request cannot be stat'ed, whatever the error, the handler
  hands the transport and the request, both as it received them, to its not-found
  handler, and its answer is the answer of that handler.
\<close>

theorem FileHandler_stat_failure_delegates:
  assumes "FileHandler_filePath os h r = Inr target" and "Stat os target = Inl err"
  shows "FileHandler_ServeHTTP os h w r = notFoundHandler h w r"
  using assms by (simp add: FileHandler_ServeHTTP_def FileHandler_serve_def)

theorem FileHandler_stat_failure_delegates_witness:
  "FileHandler_filePath test_OS test_FileHandler (GET ''/test/nofile'') = Inr ''./test/nofile''
   \<and> Stat test_OS ''./test/nofile'' = Inl ErrNotExist
   \<and> FileHandler_ServeHTTP test_OS test_FileHandler NewRecorder (GET ''/test/nofile'')
       = Inr (NotFoundHandler_ServeHTTP (NewNotFoundHandler notfound_html) NewRecorder
                (GET ''/test/nofile''))
   \<and> FileHandler_filePath test_OS test_FileHandler (GET ''/test/secret'') = Inr ''./test/secret''
   \<and> Stat test_OS ''./test/secret'' = Inl ErrPermission
   \<and> FileHandler_ServeHTTP test_OS test_FileHandler NewRecorder (GET ''/test/secret'')
       = Inr (NotFoundHandler_ServeHTTP (NewNotFoundHandler notfound_html) NewRecorder
                (GET ''/test/secret''))"
proof -
  have s1: "Stat test_OS ''./test/nofile'' = Inl ErrNotExist" by (simp add: test_defs)
  have s2: "Stat test_OS ''./test/secret'' = Inl ErrPermission" by (simp add: test_defs)
  have nf: "notFoundHandler test_FileHandler w r
              = Inr (NotFoundHandler_ServeHTTP (NewNotFoundHandler notfound_html) w r)" for w r
    by (simp add: test_defs)
  from FileHandler_stat_failure_delegates [OF test_filePath(5) s1, of NewRecorder]
    FileHandler_stat_failure_delegates [OF test_filePath(6) s2, of NewRecorder]
  show ?thesis by (simp add: nf s1 s2 test_filePath)
qed

lemma FileHandler_serve_dir:
  assumes "Stat os target = Inr finfo" and "IsDir (Mode finfo)" and "\<not> wroteHeader w"
  shows "FileHandler_serve os h w r target =
           Inr (w\<lparr>Code := 302,
                  HeaderMap := (HeaderMap w)(''Location'' \<mapsto> URL.Path (URL r) @ ''/''),
                  wroteHeader := True\<rparr>)"
  using assms by (simp add: FileHandler_serve_def http_Redirect_fresh StatusFound_def)

lemma test_Stat_dir:
  "Stat test_OS ''./test'' = Inr dir_info"
  "Stat test_OS ''./test/sub1'' = Inr dir_info"
  "IsDir (Mode dir_info)"
  by (simp_all add: test_defs dir_info_def IsDir_def ModeDir_def)

lemma test_Stat_regular:
  "Stat test_OS ''./test/index.html'' = Inr file_info"
  "IsRegular (Mode file_info)"
  "ReadFile test_OS ''./test/index.html'' = ''Test''"
  by (simp_all add: test_defs file_info_def IsRegular_def Mode_defs)

lemma test_Stat_fifo:
  "Stat test_OS ''./test/fifo'' = Inr fifo_info"
  "\<not> IsDir (Mode fifo_info)"
  "\<not> IsRegular (Mode fifo_info)"
  by (simp_all add: test_defs fifo_info_def IsDir_def IsRegular_def Mode_defs)

text \<open>
  C3. When the target of a request with path \<open>p\<close> stats as a directory, the handler
  answers with status 302 and the Location header \<open>p\<close> followed by a slash. This covers
  the mount root asked for without its trailing slash: for the prefix \<^verbatim>\<open>/test/\<close> and the
  request \<^verbatim>\<open>/test\<close> the target is the served directory itself. The Location is the URL the
  handler passes to \<^verbatim>\<open>http.Redirect\<close>.
\<close>

theorem FileHandler_directory_redirects:
  assumes "\<not> wroteHeader w" and "Stat os target = Inr finfo" and "IsDir (Mode finfo)"
  shows "(FileHandler_filePath os h \<lparr>URL = \<lparr>URL.Path = p\<rparr>\<rparr> = Inr target \<longrightarrow>
            FileHandler_ServeHTTP os h w \<lparr>URL = \<lparr>URL.Path = p\<rparr>\<rparr> =
              Inr (w\<lparr>Code := 302, HeaderMap := (HeaderMap w)(''Location'' \<mapsto> p @ ''/''),
                     wroteHeader := True\<rparr>))
       \<and> (urlPath h = p @ ''/'' \<and> \<not> HasSuffix p ''/'' \<and> target = directory h \<longrightarrow>
            FileHandler_ServeHTTP os h w \<lparr>URL = \<lparr>URL.Path = p\<rparr>\<rparr> =
              Inr (w\<lparr>Code := 302, HeaderMap := (HeaderMap w)(''Location'' \<mapsto> p @ ''/''),
                     wroteHeader := True\<rparr>))"
  using assms
  by (auto simp: FileHandler_ServeHTTP_def FileHandler_serve_dir filePath_mount_root)

theorem FileHandler_directory_redirects_witness:
  "\<not> wroteHeader NewRecorder
   \<and> Stat test_OS ''./test'' = Inr dir_info
   \<and> Stat test_OS ''./test/sub1'' = Inr dir_info
   \<and> IsDir (Mode dir_info)
   \<and> urlPath test_FileHandler = ''/test'' @ ''/'' \<and> \<not> HasSuffix ''/test'' ''/''
   \<and> ''./test'' = directory test_FileHandler
   \<and> FileHandler_ServeHTTP test_OS test_FileHandler NewRecorder \<lparr>URL = \<lparr>URL.Path = ''/test''\<rparr>\<rparr>
       = Inr (NewRecorder\<lparr>Code := 302, HeaderMap := [''Location'' \<mapsto> ''/test/''],
                wroteHeader := True\<rparr>)
   \<and> FileHandler_filePath test_OS test_FileHandler \<lparr>URL = \<lparr>URL.Path = ''/test/sub1''\<rparr>\<rparr>
       = Inr ''./test/sub1''
   \<and> FileHandler_ServeHTTP test_OS test_FileHandler NewRecorder
        \<lparr>URL = \<lparr>URL.Path = ''/test/sub1''\<rparr>\<rparr>
       = Inr (NewRecorder\<lparr>Code := 302, HeaderMap := [''Location'' \<mapsto> ''/test/sub1/''],
                wroteHeader := True\<rparr>)"
proof -
  have root: "urlPath test_FileHandler = ''/test'' @ ''/'' \<and> \<not> HasSuffix ''/test'' ''/''
              \<and> ''./test'' = directory test_FileHandler"
    by (simp add: test_defs HasSuffix_def)
  have fp: "FileHandler_filePath test_OS test_FileHandler \<lparr>URL = \<lparr>URL.Path = ''/test/sub1''\<rparr>\<rparr>
              = Inr ''./test/sub1''"
    using test_filePath(4) by (simp add: GET_def)
  from FileHandler_directory_redirects
      [OF fresh_NewRecorder test_Stat_dir(1) test_Stat_dir(3), of test_FileHandler "''/test''",
       THEN conjunct2] root
  have r1: "FileHandler_ServeHTTP test_OS test_FileHandler NewRecorder
              \<lparr>URL = \<lparr>URL.Path = ''/test''\<rparr>\<rparr>
            = Inr (NewRecorder\<lparr>Code := 302, HeaderMap := [''Location'' \<mapsto> ''/test/''],
                     wroteHeader := True\<rparr>)"
    by (simp add: HeaderMap_NewRecorder)
  from FileHandler_directory_redirects
      [OF fresh_NewRecorder test_Stat_dir(2) test_Stat_dir(3), of test_FileHandler "''/test/sub1''",
       THEN conjunct1] fp
  have r2: "FileHandler_ServeHTTP test_OS test_FileHandler NewRecorder
              \<lparr>URL = \<lparr>URL.Path = ''/test/sub1''\<rparr>\<rparr>
            = Inr (NewRecorder\<lparr>Code := 302, HeaderMap := [''Location'' \<mapsto> ''/test/sub1/''],
                     wroteHeader := True\<rparr>)"
    by (simp add: HeaderMap_NewRecorder)
  from r1 r2 root fp test_Stat_dir show ?thesis
    by (simp add: fresh_NewRecorder)
qed

text \<open>
  C4, as stated, fails. In the served test directory \<^verbatim>\<open>index.html\<close> is a regular file
  holding \<^verbatim>\<open>Test\<close>, and the request \<^verbatim>\<open>/test/index.html\<close> is answered with status 301 and
  Location \<^verbatim>\<open>./\<close>, with an empty body, as \<^verbatim>\<open>TestFileHandler\<close> expects: not with 200 and the
  bytes of the file.
\<close>

theorem GET_index_html_is_moved_permanently:
  "Stat test_OS ''./test/index.html'' = Inr file_info
   \<and> IsRegular (Mode file_info)
   \<and> ReadFile test_OS ''./test/index.html'' = ''Test''
   \<and> FileHandler_ServeHTTP test_OS test_FileHandler NewRecorder (GET ''/test/index.html'')
       = Inr (NewRecorder\<lparr>Code := 301, HeaderMap := [''Location'' \<mapsto> ''./''],
                wroteHeader := True\<rparr>)
   \<and> Code (NewRecorder\<lparr>Code := 301, HeaderMap := [''Location'' \<mapsto> ''./''],
                wroteHeader := True\<rparr>) \<noteq> 200
   \<and> Body (NewRecorder\<lparr>Code := 301, HeaderMap := [''Location'' \<mapsto> ''./''],
                wroteHeader := True\<rparr>) \<noteq> ''Test''"
proof -
  have nd: "\<not> IsDir (Mode file_info)"
    using IsDir_not_IsRegular test_Stat_regular(2) by blast
  have urlpath_GET: "URL.Path (URL (GET p)) = p" for p
    by (simp add: GET_def)
  have dd: "\<not> containsDotDot ''/test/index.html''"
    by (simp add: containsDotDot_def isSlashRune_def)
  have sf: "HasSuffix ''/test/index.html'' ''/index.html''"
    by (simp add: HasSuffix_def)
  have "FileHandler_ServeHTTP test_OS test_FileHandler NewRecorder (GET ''/test/index.html'')
       = Inr (NewRecorder\<lparr>Code := 301, HeaderMap := [''Location'' \<mapsto> ''./''],
                wroteHeader := True\<rparr>)"
    using nd dd sf
    by (simp add: FileHandler_ServeHTTP_def FileHandler_serve_def test_filePath
        test_Stat_regular http_ServeFile_def localRedirect_fresh fresh_NewRecorder
        HeaderMap_NewRecorder urlpath_GET)
  then show ?thesis
    by (simp add: test_Stat_regular Body_NewRecorder)
qed

text \<open>
  C4, amended. A request for the index file by its literal name, a request path that
  ends in \<^verbatim>\<open>/index.html\<close> and has no \<^verbatim>\<open>..\<close> element, whose target is a regular file, is
  not answered by the handler's own 302 redirect for directories: the handler passes
  it to \<^verbatim>\<open>http.ServeFile\<close> with the target, and \<^verbatim>\<open>http.ServeFile\<close> answers it with status
  301 and Location \<^verbatim>\<open>./\<close>.
\<close>

theorem FileHandler_index_by_name:
  assumes "FileHandler_filePath os h r = Inr target"
    and "Stat os target = Inr finfo" and "IsRegular (Mode finfo)"
    and "HasSuffix (URL.Path (URL r)) ''/index.html''"
    and "\<not> containsDotDot (URL.Path (URL r))"
    and "\<not> wroteHeader w"
  shows "FileHandler_ServeHTTP os h w r = Inr (http_ServeFile os w r target)
       \<and> http_ServeFile os w r target =
           w\<lparr>Code := 301, HeaderMap := (HeaderMap w)(''Location'' \<mapsto> ''./''),
             wroteHeader := True\<rparr>"
proof -
  from assms(3) have "\<not> IsDir (Mode finfo)" using IsDir_not_IsRegular by blast
  with assms show ?thesis
    by (simp add: FileHandler_ServeHTTP_def FileHandler_serve_def http_ServeFile_def
        localRedirect_fresh)
qed

theorem FileHandler_index_by_name_witness:
  "FileHandler_filePath test_OS test_FileHandler (GET ''/test/index.html'')
     = Inr ''./test/index.html''
   \<and> Stat test_OS ''./test/index.html'' = Inr file_info
   \<and> IsRegular (Mode file_info)
   \<and> HasSuffix (URL.Path (URL (GET ''/test/index.html''))) ''/index.html''
   \<and> \<not> containsDotDot (URL.Path (URL (GET ''/test/index.html'')))
   \<and> \<not> wroteHeader NewRecorder
   \<and> FileHandler_ServeHTTP test_OS test_FileHandler NewRecorder (GET ''/test/index.html'')
       = Inr (http_ServeFile test_OS NewRecorder (GET ''/test/index.html'') ''./test/index.html'')
   \<and> http_ServeFile test_OS NewRecorder (GET ''/test/index.html'') ''./test/index.html''
       = NewRecorder\<lparr>Code := 301, HeaderMap := [''Location'' \<mapsto> ''./''], wroteHeader := True\<rparr>"
proof -
  have dd: "\<not> containsDotDot (URL.Path (URL (GET ''/test/index.html'')))"
    by (simp add: containsDotDot_def isSlashRune_def GET_def)
  have sf: "HasSuffix (URL.Path (URL (GET ''/test/index.html''))) ''/index.html''"
    by (simp add: HasSuffix_def GET_def)
  from FileHandler_index_by_name
      [OF test_filePath(3) test_Stat_regular(1) test_Stat_regular(2) sf dd fresh_NewRecorder]
  show ?thesis
    using dd sf by (simp add: test_filePath test_Stat_regular fresh_NewRecorder
        HeaderMap_NewRecorder)
qed

text \<open>
  The model answers the requests of \<^verbatim>\<open>TestFileHandler\<close> as the test expects: redirects
  for the directories asked for without a slash, the index file for the directories
  that have one, the not-found page for \<^verbatim>\<open>sub2/\<close>, which has none, and for a missing file.
\<close>

lemma TestFileHandler_expectations:
  "FileHandler_ServeHTTP test_OS test_FileHandler NewRecorder (GET ''/test/'')
     = Inr (NewRecorder\<lparr>Code := 200, Body := ''Test'', wroteHeader := True\<rparr>)"
  "FileHandler_ServeHTTP test_OS test_FileHandler NewRecorder (GET ''/test/sub1/'')
     = Inr (NewRecorder\<lparr>Code := 200, Body := ''Sub1'', wroteHeader := True\<rparr>)"
  "FileHandler_ServeHTTP test_OS test_FileHandler NewRecorder (GET ''/test/sub2'')
     = Inr (NewRecorder\<lparr>Code := 302, HeaderMap := [''Location'' \<mapsto> ''/test/sub2/''],
              wroteHeader := True\<rparr>)"
  "FileHandler_ServeHTTP test_OS test_FileHandler NewRecorder (GET ''/test/sub2/'')
     = Inr (NewRecorder\<lparr>Code := 404, Body := ''Not Found: /test/sub2/'', wroteHeader := True\<rparr>)"
  "FileHandler_ServeHTTP test_OS test_FileHandler NewRecorder (GET ''/test/sub2/not-index.html'')
     = Inr (NewRecorder\<lparr>Code := 200, Body := ''Sub2'', wroteHeader := True\<rparr>)"
  "FileHandler_ServeHTTP test_OS test_FileHandler NewRecorder (GET ''/test/nofile'')
     = Inr (NewRecorder\<lparr>Code := 404, Body := ''Not Found: /test/nofile'', wroteHeader := True\<rparr>)"
  by (simp_all add: FileHandler_ServeHTTP_def FileHandler_filePath_def FileHandler_serve_def
      slice_from_def HasSuffix_def FromSlash_def indexPage_def test_defs GET_def
      dir_info_def file_info_def IsDir_def IsRegular_def Mode_defs
      http_Redirect_fresh http_ServeFile_def containsDotDot_def isSlashRune_def
      NotFoundHandler_ServeHTTP_def fixture_defs Execute_empty commit_fresh
      WriteTo_def Write_def WriteHeader_def StatusOK_def StatusFound_def StatusNotFound_def
      fresh_NewRecorder Body_NewRecorder HeaderMap_NewRecorder)

text \<open>
  The two cases of the \<^verbatim>\<open>switch\<close> exclude each other, and a mode that is in neither
  leaves the transport as it was.
\<close>

lemma FileHandler_serve_neither:
  assumes "Stat os target = Inr finfo"
    and "\<not> IsDir (Mode finfo)" and "\<not> IsRegular (Mode finfo)"
  shows "FileHandler_serve os h w r target = Inr w"
  using assms by (simp add: FileHandler_serve_def)

text \<open>
  C10. The \<^verbatim>\<open>switch\<close> on the mode has the two cases \<^verbatim>\<open>IsDir\<close> and \<^verbatim>\<open>IsRegular\<close> and no
  default. A named pipe in the served directory stats without error and is neither, so
  the request for it returns with the transport untouched: no status line, no header,
  no body.
\<close>

theorem FileHandler_special_file_unwritten:
  "Stat test_OS ''./test/fifo'' = Inr fifo_info
   \<and> FileHandler_ServeHTTP test_OS test_FileHandler NewRecorder (GET ''/test/fifo'')
       = Inr NewRecorder
   \<and> wroteHeader NewRecorder = False \<and> Body NewRecorder = []"
  by (simp add: FileHandler_ServeHTTP_def FileHandler_serve_def test_filePath test_Stat_fifo
      fresh_NewRecorder Body_NewRecorder)

end
